theory Spec2Isabelle
  imports Complex_Main
begin

section \<open>Data model of \<open>pyart.graph.radarmapdisplay\<close>\<close>

text \<open>
  The module draws radar sweeps on a map through three libraries: numpy (arrays),
  pyproj (the Lambert conformal conic projection held in \<open>self.proj\<close>) and
  Basemap/matplotlib (the map background and the axes that are drawn on).

  Floating point numbers are idealised as real numbers. A numpy array is the list of its
  elements in storage order; the operations the module applies to arrays (scaling by a
  constant, \<open>sin\<close>, \<open>cos\<close>, \<open>min\<close>, \<open>max\<close>) do not depend on the shape.
\<close>

type_synonym ndarray = "real list"

text \<open>A masked array: \<open>None\<close> is a masked element.\<close>

type_synonym masked_array = "real option list"

text \<open>
  The exceptions the module can end with. \<open>TypeError\<close> is what calling \<open>None\<close> raises,
  \<open>ValueError\<close> what \<open>min\<close>/\<open>max\<close> of an empty array raise, \<open>IndexError\<close> what indexing a
  list that is too short raises; \<open>BackendError\<close> stands for whatever a collaborator (the
  projection, the map, the base display) raises, which the module hands on unchanged.
\<close>

datatype error = TypeError | ValueError | IndexError | BackendError string

text \<open>The keyword arguments \<open>__init__\<close> gives to \<open>pyproj.Proj\<close>.\<close>

record proj_params =
  p_proj :: string
  p_datum :: string
  p_lat_0 :: real
  p_lon_0 :: real
  p_x_0 :: real
  p_y_0 :: real

text \<open>
  The keyword arguments \<open>plot_ppi_map\<close> gives to \<open>Basemap\<close>; \<open>bm_ax\<close> is the axes the
  map draws on.
\<close>

record basemap =
  llcrnrlon :: real
  llcrnrlat :: real
  urcrnrlon :: real
  urcrnrlat :: real
  bm_projection :: string
  area_thresh :: real
  bm_resolution :: string
  bm_ax :: nat
  bm_lat_0 :: real
  bm_lon_0 :: real

text \<open>What \<open>basemap.pcolormesh\<close> returns: the mesh that was drawn.\<close>

record mesh =
  m_x :: ndarray
  m_y :: ndarray
  m_data :: masked_array
  m_vmin :: real
  m_vmax :: real
  m_cmap :: string

record colorbar =
  cb_mappable :: mesh
  cb_label :: string
  cb_fig :: nat

text \<open>What is drawn on an axes, one constructor for each drawing call of the module.\<close>

datatype artist =
    Coastlines real
  | States
  | Parallels ndarray "bool list"
  | Meridians ndarray "bool list"
  | Pcolormesh mesh
  | Shapefile string string
  | Title string
  | Line ndarray ndarray string
  | Text real real string

text \<open>
  The attributes of the base class \<open>RadarDisplay\<close> that the module reads or writes,
  and the two that \<open>RadarMapDisplay\<close> adds to them.
\<close>

record radar_display =
  loc :: "real \<times> real"
  plots :: "mesh list"
  plot_vars :: "string list"
  cbs :: "colorbar list"

record display = radar_display +
  basemap :: "basemap option"
  proj :: proj_params

text \<open>
  The display together with the state of matplotlib: the current axes (\<open>gca()\<close>), the
  current figure, and everything drawn so far, each artist with the axes it is on.
\<close>

record world =
  disp :: display
  cur_ax :: nat
  cur_fig :: nat
  canvas :: "(nat \<times> artist) list"

text \<open>
  The collaborators, taken as parameters. \<open>pyproj_inverse p xs ys\<close> is
  \<open>Proj(**p)(xs, ys, inverse=True)\<close>; \<open>basemap_call\<close> is \<open>Basemap.__call__\<close> on arrays and
  \<open>basemap_call_pt\<close> on two floats; \<open>basemap_init\<close> and \<open>readshapefile\<close> say what
  the constructor of \<open>Basemap\<close> and its shapefile reader raise, if anything. The others
  are methods of the base class \<open>RadarDisplay\<close> that read the radar object.
\<close>

record env =
  pyproj_inverse :: "proj_params \<Rightarrow> ndarray \<Rightarrow> ndarray \<Rightarrow> error + (ndarray \<times> ndarray)"
  basemap_call :: "basemap \<Rightarrow> ndarray \<Rightarrow> ndarray \<Rightarrow> error + (ndarray \<times> ndarray)"
  basemap_call_pt :: "basemap \<Rightarrow> real \<Rightarrow> real \<Rightarrow> error + (real \<times> real)"
  parse_vmin_vmax :: "string \<Rightarrow> real option \<Rightarrow> real option \<Rightarrow> error + (real \<times> real)"
  get_data :: "string \<Rightarrow> int \<Rightarrow> (string \<times> real) option \<Rightarrow> error + masked_array"
  get_x_y :: "string \<Rightarrow> int \<Rightarrow> error + (ndarray \<times> ndarray)"
  basemap_init :: "basemap \<Rightarrow> error option"
  readshapefile :: "string \<Rightarrow> error option"
  generate_title :: "string \<Rightarrow> int \<Rightarrow> string"
  generate_colorbar_label :: "string \<Rightarrow> string"

text \<open>
  A method returns the world it leaves behind together with the exception it raised, if
  any: an exception does not undo what was drawn or assigned before it.
\<close>

type_synonym outcome = "error option \<times> world"

section \<open>Construction\<close>

text \<open>
  Modelled from the spec: \<open>RadarDisplay.__init__\<close> of the base class, which is not part of
  the module. It sets \<open>loc\<close> to the radar's latitude and longitude and starts the
  artifact lists \<open>plots\<close>, \<open>plot_vars\<close> and \<open>cbs\<close> empty.
\<close>

definition RadarDisplay_init :: "real \<times> real \<Rightarrow> radar_display" where
  "RadarDisplay_init radar_loc = \<lparr>loc = radar_loc, plots = [], plot_vars = [], cbs = []\<rparr>"

text \<open>\<open>RadarMapDisplay.__init__\<close>; the radar object is represented by its location.\<close>

definition init :: "real \<times> real \<Rightarrow> display" where
  "init radar_loc =
     (let base = RadarDisplay_init radar_loc
      in \<lparr>loc = loc base, plots = plots base, plot_vars = plot_vars base, cbs = cbs base,
          basemap = None,
          proj = \<lparr>p_proj = ''lcc'', p_datum = ''NAD83'',
                   p_lat_0 = fst (loc base), p_lon_0 = snd (loc base),
                   p_x_0 = 0, p_y_0 = 0\<rparr>\<rparr>)"

section \<open>Overlay drawing\<close>

text \<open>\<open>gca().plot(...)\<close> and \<open>gca().text(...)\<close>: the artist goes on the current axes.\<close>

definition gca_draw :: "artist \<Rightarrow> world \<Rightarrow> world" where
  "gca_draw a w = w\<lparr>canvas := canvas w @ [(cur_ax w, a)]\<rparr>"

text \<open>\<open>xs[i]\<close> for a list and a constant index \<open>i \<ge> 0\<close>.\<close>

definition getitem :: "'a list \<Rightarrow> nat \<Rightarrow> error + 'a" where
  "getitem xs i = (if i < length xs then Inr (xs ! i) else Inl IndexError)"

definition plot_point ::
  "env \<Rightarrow> world \<Rightarrow> real \<Rightarrow> real \<Rightarrow> string \<Rightarrow> string option \<Rightarrow> real list \<Rightarrow> outcome" where
  "plot_point e w lon lat symbol label_text label_offset =
     (case basemap (disp w) of
        None \<Rightarrow> (Some TypeError, w)
      | Some bm \<Rightarrow>
         (case basemap_call_pt e bm lon lat of
            Inl err \<Rightarrow> (Some err, w)
          | Inr (xp, yp) \<Rightarrow>
             (let w1 = gca_draw (Line [xp, xp] [yp, yp] symbol) w in
              case label_text of
                None \<Rightarrow> (None, w1)
              | Some txt \<Rightarrow>
                 (case getitem label_offset 0 of
                    Inl err \<Rightarrow> (Some err, w1)
                  | Inr off0 \<Rightarrow>
                     (case getitem label_offset 1 of
                        Inl err \<Rightarrow> (Some err, w1)
                      | Inr off1 \<Rightarrow>
                         (let label_lonlat = [lon + off0, lat + off1] in
                          case basemap_call_pt e bm lon lat of
                            Inl err \<Rightarrow> (Some err, w1)
                          | Inr (xl, yl) \<Rightarrow> (None, gca_draw (Text xl yl txt) w1)))))))"

definition plot_line_geo :: "env \<Rightarrow> world \<Rightarrow> ndarray \<Rightarrow> ndarray \<Rightarrow> string \<Rightarrow> outcome" where
  "plot_line_geo e w line_lons line_lats line_style =
     (case basemap (disp w) of
        None \<Rightarrow> (Some TypeError, w)
      | Some bm \<Rightarrow>
         (case basemap_call e bm line_lons line_lats of
            Inl err \<Rightarrow> (Some err, w)
          | Inr (xp, yp) \<Rightarrow> (None, gca_draw (Line xp yp line_style) w)))"

definition plot_line_xy :: "env \<Rightarrow> world \<Rightarrow> ndarray \<Rightarrow> ndarray \<Rightarrow> string \<Rightarrow> outcome" where
  "plot_line_xy e w line_x line_y line_style =
     (case pyproj_inverse e (proj (disp w)) line_x line_y of
        Inl err \<Rightarrow> (Some err, w)
      | Inr (lons, lats) \<Rightarrow> plot_line_geo e w lons lats line_style)"

text \<open>
  \<open>numpy.linspace(start, stop, num)\<close> with its default \<open>endpoint=True\<close>: \<open>num\<close> samples,
  the step is \<open>(stop - start) / (num - 1)\<close>, and the last sample is set to \<open>stop\<close>.
\<close>

definition linspace :: "real \<Rightarrow> real \<Rightarrow> nat \<Rightarrow> ndarray" where
  "linspace start stop num =
     (if num = 0 then []
      else if num = 1 then [start]
      else (let step = (stop - start) / real (num - 1)
            in map (\<lambda>i. real i * step + start) [0 ..< num - 1] @ [stop]))"

text \<open>The first four lines of \<open>plot_range_ring\<close>: the angles and the points of the ring.\<close>

definition npts :: nat where
  "npts = 360"

definition ring_angle :: ndarray where
  "ring_angle = linspace 0 (2 * pi) npts"

definition ring_xpts :: "real \<Rightarrow> ndarray" where
  "ring_xpts radar_range = map (\<lambda>a. radar_range * sin a) ring_angle"

definition ring_ypts :: "real \<Rightarrow> ndarray" where
  "ring_ypts radar_range = map (\<lambda>a. radar_range * cos a) ring_angle"

definition plot_range_ring :: "env \<Rightarrow> world \<Rightarrow> real \<Rightarrow> string \<Rightarrow> outcome" where
  "plot_range_ring e w radar_range line_style =
     (let xpts = ring_xpts radar_range;
          ypts = ring_ypts radar_range
      in plot_line_xy e w xpts ypts line_style)"

section \<open>The geographic PPI plot\<close>

text \<open>The parameters of \<open>plot_ppi_map\<close>; \<open>None\<close> is Python's \<open>None\<close>.\<close>

record ppi_args =
  field :: string
  sweep :: int
  mask_tuple :: "(string \<times> real) option"
  vmin :: "real option"
  vmax :: "real option"
  cmap :: string
  mask_outside :: bool
  title :: "string option"
  title_flag :: bool
  colorbar_flag :: bool
  colorbar_label :: "string option"
  ax :: "nat option"
  fig :: "nat option"
  lat_lines :: "ndarray option"
  lon_lines :: "ndarray option"
  auto_range :: bool
  min_lon :: real
  max_lon :: real
  min_lat :: real
  max_lat :: real
  resolution :: string
  shapefile :: "string option"

text \<open>The default values of the signature, for a given field.\<close>

definition default_args :: "string \<Rightarrow> ppi_args" where
  "default_args f =
     \<lparr>field = f, sweep = 0, mask_tuple = None, vmin = None, vmax = None, cmap = ''jet'',
      mask_outside = True, title = None, title_flag = True, colorbar_flag = True,
      colorbar_label = None, ax = None, fig = None, lat_lines = None, lon_lines = None,
      auto_range = True, min_lon = - 92, max_lon = - 86, min_lat = 40, max_lat = 44,
      resolution = ''h'', shapefile = None\<rparr>"

text \<open>
  \<open>numpy.arange(start, stop, step)\<close> on integers with a positive step: the values
  \<open>start\<close>, \<open>start + step\<close>, ... that lie below \<open>stop\<close>.
\<close>

definition arange :: "int \<Rightarrow> int \<Rightarrow> int \<Rightarrow> int list" where
  "arange start stop step =
     map (\<lambda>i. start + int i * step) [0 ..< nat ((stop - start + step - 1) div step)]"

text \<open>
  \<open>numpy.ma.masked_outside(data, v1, v2)\<close>: the bounds may come in either order, and an
  element below the lower or above the upper one is masked.
\<close>

definition masked_outside :: "masked_array \<Rightarrow> real \<Rightarrow> real \<Rightarrow> masked_array" where
  "masked_outside data v1 v2 =
     (let lo = (if v2 < v1 then v2 else v1);
          hi = (if v2 < v1 then v1 else v2)
      in map (\<lambda>d. case d of None \<Rightarrow> None
                     | Some x \<Rightarrow> if x < lo \<or> x > hi then None else Some x) data)"

text \<open>\<open>a.max()\<close> and \<open>a.min()\<close> of an array: a \<open>ValueError\<close> when it is empty.\<close>

definition amax :: "ndarray \<Rightarrow> error + real" where
  "amax a = (case a of [] \<Rightarrow> Inl ValueError | x # xs \<Rightarrow> Inr (fold max xs x))"

definition amin :: "ndarray \<Rightarrow> error + real" where
  "amin a = (case a of [] \<Rightarrow> Inl ValueError | x # xs \<Rightarrow> Inr (fold min xs x))"

text \<open>A drawing call of the map or of an axes: the artist goes on that axes.\<close>

definition ax_draw :: "nat \<Rightarrow> artist \<Rightarrow> world \<Rightarrow> world" where
  "ax_draw axes a w = w\<lparr>canvas := canvas w @ [(axes, a)]\<rparr>"

text \<open>
  Modelled from the spec: \<open>_parse_ax_fig\<close> of the base display, which is not part of the
  module. An axes or figure that is unset is resolved to the current one.
\<close>

definition parse_ax_fig :: "world \<Rightarrow> nat option \<Rightarrow> nat option \<Rightarrow> nat \<times> nat" where
  "parse_ax_fig w ax0 fig0 =
     ((case ax0 of None \<Rightarrow> cur_ax w | Some x \<Rightarrow> x),
      (case fig0 of None \<Rightarrow> cur_fig w | Some f \<Rightarrow> f))"

text \<open>
  Modelled from the spec: \<open>_set_title\<close> of the base display, which is not part of the
  module. It puts the given title on the axes, or the default title made from the field
  and the sweep when none is given.
\<close>

definition set_title :: "env \<Rightarrow> string \<Rightarrow> int \<Rightarrow> string option \<Rightarrow> nat \<Rightarrow> world \<Rightarrow> world" where
  "set_title e f s t axes w =
     (case t of None \<Rightarrow> ax_draw axes (Title (generate_title e f s)) w
      | Some txt \<Rightarrow> ax_draw axes (Title txt) w)"

text \<open>
  Modelled from the spec: \<open>plot_colorbar\<close> of the base display, which is not part of the
  module. It attaches a colorbar keyed to the mesh to the figure, labelled with the given
  label or with the default label of the field, and appends it to the colorbar list; the
  other artifact lists are left alone.
\<close>

definition plot_colorbar :: "env \<Rightarrow> world \<Rightarrow> mesh \<Rightarrow> string option \<Rightarrow> string \<Rightarrow> nat \<Rightarrow> world" where
  "plot_colorbar e w mappable label f figure =
     (let cb = \<lparr>cb_mappable = mappable,
                cb_label = (case label of None \<Rightarrow> generate_colorbar_label e f | Some l \<Rightarrow> l),
                cb_fig = figure\<rparr>
      in w\<lparr>disp := (disp w)\<lparr>cbs := cbs (disp w) @ [cb]\<rparr>\<rparr>)"

text \<open>
  The block ``determine map region'' after the projection: with \<open>auto_range\<close> the four
  bounds are overwritten, in the order \<open>max_lat\<close>, \<open>max_lon\<close>, \<open>min_lat\<close>, \<open>min_lon\<close>. The
  result is \<open>(min_lon, max_lon, min_lat, max_lat)\<close>.
\<close>

definition map_region ::
  "ppi_args \<Rightarrow> ndarray \<Rightarrow> ndarray \<Rightarrow> error + (real \<times> real \<times> real \<times> real)" where
  "map_region a lon lat =
     (if auto_range a then
        (case amax lat of Inl err \<Rightarrow> Inl err | Inr max_lat1 \<Rightarrow>
         case amax lon of Inl err \<Rightarrow> Inl err | Inr max_lon1 \<Rightarrow>
         case amin lat of Inl err \<Rightarrow> Inl err | Inr min_lat1 \<Rightarrow>
         case amin lon of Inl err \<Rightarrow> Inl err | Inr min_lon1 \<Rightarrow>
           Inr (min_lon1, max_lon1, min_lat1, max_lat1))
      else Inr (min_lon a, max_lon a, min_lat a, max_lat a))"

text \<open>The graticule lines that are drawn when none are given.\<close>

definition default_lat_lines :: ndarray where
  "default_lat_lines = map real_of_int (arange 30 46 1)"

definition default_lon_lines :: ndarray where
  "default_lon_lines = map real_of_int (arange (- 110) (- 75) 1)"

definition plot_ppi_map :: "env \<Rightarrow> world \<Rightarrow> ppi_args \<Rightarrow> outcome" where
  "plot_ppi_map e w a =
     (let self = disp w;
          (ax1, fig1) = parse_ax_fig w (ax a) (fig a)
      in
      case parse_vmin_vmax e (field a) (vmin a) (vmax a) of
        Inl err \<Rightarrow> (Some err, w)
      | Inr (vmin1, vmax1) \<Rightarrow>
      let lat_lines1 = (case lat_lines a of None \<Rightarrow> default_lat_lines | Some l \<Rightarrow> l);
          lon_lines1 = (case lon_lines a of None \<Rightarrow> default_lon_lines | Some l \<Rightarrow> l)
      in
      case get_data e (field a) (sweep a) (mask_tuple a) of
        Inl err \<Rightarrow> (Some err, w)
      | Inr data \<Rightarrow>
      case get_x_y e (field a) (sweep a) of
        Inl err \<Rightarrow> (Some err, w)
      | Inr (x, y) \<Rightarrow>
      let data1 = (if mask_outside a then masked_outside data vmin1 vmax1 else data) in
      case pyproj_inverse e (proj self) (map (\<lambda>v. v * 1000) x) (map (\<lambda>v. v * 1000) y) of
        Inl err \<Rightarrow> (Some err, w)
      | Inr (lon, lat) \<Rightarrow>
      case map_region a lon lat of
        Inl err \<Rightarrow> (Some err, w)
      | Inr (min_lon1, max_lon1, min_lat1, max_lat1) \<Rightarrow>
      let bm = \<lparr>llcrnrlon = min_lon1, llcrnrlat = min_lat1,
                urcrnrlon = max_lon1, urcrnrlat = max_lat1,
                bm_projection = ''lcc'', area_thresh = 1000,
                bm_resolution = resolution a, bm_ax = ax1,
                bm_lat_0 = fst (loc self), bm_lon_0 = snd (loc self)\<rparr>
      in
      case basemap_init e bm of
        Some err \<Rightarrow> (Some err, w)
      | None \<Rightarrow>
      let w1 = ax_draw ax1 (Coastlines 1.25) w;
          w2 = ax_draw ax1 States w1;
          w3 = ax_draw ax1 (Parallels lat_lines1 [True, False, False, False]) w2;
          w4 = ax_draw ax1 (Meridians lon_lines1 [False, False, False, True]) w3;
          w5 = w4\<lparr>disp := (disp w4)\<lparr>basemap := Some bm\<rparr>\<rparr>
      in
      case basemap_call e bm lon lat of
        Inl err \<Rightarrow> (Some err, w5)
      | Inr (xd, yd) \<Rightarrow>
      let pm = \<lparr>m_x = xd, m_y = yd, m_data = data1,
                m_vmin = vmin1, m_vmax = vmax1, m_cmap = cmap a\<rparr>;
          w6 = ax_draw ax1 (Pcolormesh pm) w5
      in
      case (case shapefile a of None \<Rightarrow> None | Some f \<Rightarrow> readshapefile e f) of
        Some err \<Rightarrow> (Some err, w6)
      | None \<Rightarrow>
      let w7 = (case shapefile a of None \<Rightarrow> w6
                | Some f \<Rightarrow> ax_draw ax1 (Shapefile f ''shapefile'') w6);
          w8 = (if title_flag a then set_title e (field a) (sweep a) (title a) ax1 w7 else w7);
          w9 = w8\<lparr>disp := (disp w8)\<lparr>plots := plots (disp w8) @ [pm]\<rparr>\<rparr>;
          w10 = w9\<lparr>disp := (disp w9)\<lparr>plot_vars := plot_vars (disp w9) @ [field a]\<rparr>\<rparr>
      in
      if colorbar_flag a
      then (None, plot_colorbar e w10 pm (colorbar_label a) (field a) fig1)
      else (None, w10))"

section \<open>A concrete backend\<close>

text \<open>
  A small backend on which the methods can be evaluated: the projection and the map are
  linear, one degree being 100 km, the radar has one field of three gates at
  \<open>(0, 0)\<close>, \<open>(1, 0)\<close> and \<open>(0, 1)\<close> km, and nothing raises but a projection of
  arrays of different lengths.
\<close>

definition flat_env :: env where
  "flat_env =
     \<lparr>pyproj_inverse = (\<lambda>p xs ys.
         if length xs = length ys
         then Inr (map (\<lambda>x. p_lon_0 p + x / 100000) xs, map (\<lambda>y. p_lat_0 p + y / 100000) ys)
         else Inl (BackendError ''Buffer lengths not the same'')),
      basemap_call = (\<lambda>bm lons lats.
         Inr (map (\<lambda>l. (l - llcrnrlon bm) * 100000) lons,
              map (\<lambda>l. (l - llcrnrlat bm) * 100000) lats)),
      basemap_call_pt = (\<lambda>bm lon lat.
         Inr ((lon - llcrnrlon bm) * 100000, (lat - llcrnrlat bm) * 100000)),
      parse_vmin_vmax = (\<lambda>f v1 v2.
         Inr (case v1 of None \<Rightarrow> - 6 | Some v \<Rightarrow> v, case v2 of None \<Rightarrow> 100 | Some v \<Rightarrow> v)),
      get_data = (\<lambda>f s m. Inr [Some 10, Some 20, Some 30]),
      get_x_y = (\<lambda>f s. Inr ([0, 1, 0], [0, 0, 1])),
      basemap_init = (\<lambda>bm. None),
      readshapefile = (\<lambda>f. None),
      generate_title = (\<lambda>f s. f),
      generate_colorbar_label = (\<lambda>f. f)\<rparr>"

text \<open>A display that has just been constructed, for a radar at 40 N, 90 W.\<close>

definition fresh_world :: world where
  "fresh_world = \<lparr>disp = init (40, - 90), cur_ax = 0, cur_fig = 0, canvas = []\<rparr>"

text \<open>The same display with a map of the default extent stored in it.\<close>

definition mapped_world :: world where
  "mapped_world = fresh_world\<lparr>disp := (disp fresh_world)\<lparr>basemap := Some
     \<lparr>llcrnrlon = - 92, llcrnrlat = 40, urcrnrlon = - 86, urcrnrlat = 44,
      bm_projection = ''lcc'', area_thresh = 1000, bm_resolution = ''h'', bm_ax = 0,
      bm_lat_0 = 40, bm_lon_0 = - 90\<rparr>\<rparr>\<rparr>"

section \<open>Auxiliary facts\<close>

lemma disp_ax_draw [simp]: "disp (ax_draw x art w) = disp w"
  by (simp add: ax_draw_def)

lemma disp_gca_draw [simp]: "disp (gca_draw art w) = disp w"
  by (simp add: gca_draw_def)

lemma disp_set_title [simp]: "disp (set_title e f s t x w) = disp w"
  by (simp add: set_title_def split: option.splits)

lemma disp_plot_colorbar:
  "disp (plot_colorbar e w pm l f g) = (disp w)\<lparr>cbs := cbs (disp w) @
     [\<lparr>cb_mappable = pm, cb_label = (case l of None \<Rightarrow> generate_colorbar_label e f | Some l' \<Rightarrow> l'), cb_fig = g\<rparr>]\<rparr>"
  by (simp add: plot_colorbar_def)

lemma ppi_success:
  assumes "plot_ppi_map e w a = (None, w')"
  shows "\<exists>vmin1 vmax1 data x y lon lat mnlo mxlo mnla mxla xd yd bm pm.
     parse_vmin_vmax e (field a) (vmin a) (vmax a) = Inr (vmin1, vmax1) \<and>
     get_data e (field a) (sweep a) (mask_tuple a) = Inr data \<and>
     get_x_y e (field a) (sweep a) = Inr (x, y) \<and>
     pyproj_inverse e (proj (disp w)) (map (\<lambda>v. v * 1000) x) (map (\<lambda>v. v * 1000) y) = Inr (lon, lat) \<and>
     map_region a lon lat = Inr (mnlo, mxlo, mnla, mxla) \<and>
     bm = \<lparr>llcrnrlon = mnlo, llcrnrlat = mnla, urcrnrlon = mxlo, urcrnrlat = mxla,
           bm_projection = ''lcc'', area_thresh = 1000, bm_resolution = resolution a,
           bm_ax = fst (parse_ax_fig w (ax a) (fig a)),
           bm_lat_0 = fst (loc (disp w)), bm_lon_0 = snd (loc (disp w))\<rparr> \<and>
     basemap_call e bm lon lat = Inr (xd, yd) \<and>
     pm = \<lparr>m_x = xd, m_y = yd,
           m_data = (if mask_outside a then masked_outside data vmin1 vmax1 else data),
           m_vmin = vmin1, m_vmax = vmax1, m_cmap = cmap a\<rparr> \<and>
     basemap (disp w') = Some bm \<and>
     proj (disp w') = proj (disp w) \<and>
     loc (disp w') = loc (disp w) \<and>
     plots (disp w') = plots (disp w) @ [pm] \<and>
     plot_vars (disp w') = plot_vars (disp w) @ [field a] \<and>
     (\<exists>rest. canvas w' = canvas w @
        [(bm_ax bm, Coastlines 1.25), (bm_ax bm, States),
         (bm_ax bm, Parallels (case lat_lines a of None \<Rightarrow> default_lat_lines | Some l \<Rightarrow> l)
                      [True, False, False, False]),
         (bm_ax bm, Meridians (case lon_lines a of None \<Rightarrow> default_lon_lines | Some l \<Rightarrow> l)
                      [False, False, False, True]),
         (bm_ax bm, Pcolormesh pm)] @ rest)"
proof -
  note d = plot_ppi_map_def Let_def parse_ax_fig_def
  obtain vmin1 vmax1 where 1: "parse_vmin_vmax e (field a) (vmin a) (vmax a) = Inr (vmin1, vmax1)"
    using assms by (cases "parse_vmin_vmax e (field a) (vmin a) (vmax a)") (auto simp: d)
  obtain data where 2: "get_data e (field a) (sweep a) (mask_tuple a) = Inr data"
    using assms 1 by (cases "get_data e (field a) (sweep a) (mask_tuple a)") (auto simp: d)
  obtain x y where 3: "get_x_y e (field a) (sweep a) = Inr (x, y)"
    using assms 1 2 by (cases "get_x_y e (field a) (sweep a)") (auto simp: d)
  obtain lon lat where 4: "pyproj_inverse e (proj (disp w)) (map (\<lambda>v. v * 1000) x) (map (\<lambda>v. v * 1000) y) = Inr (lon, lat)"
    using assms 1 2 3
    by (cases "pyproj_inverse e (proj (disp w)) (map (\<lambda>v. v * 1000) x) (map (\<lambda>v. v * 1000) y)") (auto simp: d)
  obtain mnlo mxlo mnla mxla where 5: "map_region a lon lat = Inr (mnlo, mxlo, mnla, mxla)"
    using assms 1 2 3 4 by (cases "map_region a lon lat") (auto simp: d)
  define bm where "bm = \<lparr>llcrnrlon = mnlo, llcrnrlat = mnla, urcrnrlon = mxlo, urcrnrlat = mxla,
           bm_projection = ''lcc'', area_thresh = 1000, bm_resolution = resolution a,
           bm_ax = fst (parse_ax_fig w (ax a) (fig a)),
           bm_lat_0 = fst (loc (disp w)), bm_lon_0 = snd (loc (disp w))\<rparr>"
  have 6: "basemap_init e bm = None"
    using assms 1 2 3 4 5 by (cases "basemap_init e bm") (auto simp: d bm_def)
  obtain xd yd where 7: "basemap_call e bm lon lat = Inr (xd, yd)"
    using assms 1 2 3 4 5 6 by (cases "basemap_call e bm lon lat") (auto simp: d bm_def)
  have 8: "(case shapefile a of None \<Rightarrow> None | Some f \<Rightarrow> readshapefile e f) = None"
    using assms 1 2 3 4 5 6 7
    by (cases "case shapefile a of None \<Rightarrow> None | Some f \<Rightarrow> readshapefile e f") (auto simp: d bm_def)
  define pm where "pm = \<lparr>m_x = xd, m_y = yd,
           m_data = (if mask_outside a then masked_outside data vmin1 vmax1 else data),
           m_vmin = vmin1, m_vmax = vmax1, m_cmap = cmap a\<rparr>"
  have 9: "disp w' = (if colorbar_flag a
       then (disp w)\<lparr>basemap := Some bm, plots := plots (disp w) @ [pm],
                      plot_vars := plot_vars (disp w) @ [field a],
                      cbs := cbs (disp w) @ [\<lparr>cb_mappable = pm,
                         cb_label = (case colorbar_label a of None \<Rightarrow> generate_colorbar_label e (field a) | Some l \<Rightarrow> l),
                         cb_fig = snd (parse_ax_fig w (ax a) (fig a))\<rparr>]\<rparr>
       else (disp w)\<lparr>basemap := Some bm, plots := plots (disp w) @ [pm],
                      plot_vars := plot_vars (disp w) @ [field a]\<rparr>)"
    using assms 1 2 3 4 5 6 7 8
    by (cases "shapefile a"; cases "title_flag a"; cases "colorbar_flag a")
       (auto simp: d bm_def pm_def disp_plot_colorbar)
  have 10: "\<exists>rest. canvas w' = canvas w @
        [(bm_ax bm, Coastlines 1.25), (bm_ax bm, States),
         (bm_ax bm, Parallels (case lat_lines a of None \<Rightarrow> default_lat_lines | Some l \<Rightarrow> l)
                      [True, False, False, False]),
         (bm_ax bm, Meridians (case lon_lines a of None \<Rightarrow> default_lon_lines | Some l \<Rightarrow> l)
                      [False, False, False, True]),
         (bm_ax bm, Pcolormesh pm)] @ rest"
    using assms 1 2 3 4 5 6 7 8
    by (cases "shapefile a"; cases "title_flag a"; cases "colorbar_flag a"; cases "title a")
       (auto simp: d bm_def pm_def ax_draw_def set_title_def plot_colorbar_def)
  have 11: "basemap (disp w') = Some bm" "proj (disp w') = proj (disp w)"
    "loc (disp w') = loc (disp w)" "plots (disp w') = plots (disp w) @ [pm]"
    "plot_vars (disp w') = plot_vars (disp w) @ [field a]"
    using 9 by (cases "colorbar_flag a"; simp)+
  show ?thesis
    using 1 2 3 4 5 7 10 11 bm_def pm_def by blast
qed

lemma init_basemap: "basemap (init radar_loc) = None"
  by (simp add: init_def Let_def)

lemma length_linspace: "length (linspace start stop num) = num"
  by (simp add: linspace_def Let_def)

lemma ring_angle_conv: "ring_angle = map (\<lambda>i. real i * (2 * pi / 359)) [0 ..< 360]"
proof -
  have "[0 ..< 360] = [0 ..< 359] @ [359 :: nat]"
    using upt_Suc_append [of 0 359] by simp
  then show ?thesis
    by (simp add: ring_angle_def npts_def linspace_def Let_def)
qed

lemma length_ring_angle: "length ring_angle = 360"
  by (simp add: ring_angle_conv)

lemma ring_angle_nth: "i < 360 \<Longrightarrow> ring_angle ! i = real i * (2 * pi / 359)"
  by (simp add: ring_angle_conv)

lemma ring_radius: "sqrt ((r * sin a)\<^sup>2 + (r * cos a)\<^sup>2) = \<bar>r\<bar>"
proof -
  have "(r * sin a)\<^sup>2 + (r * cos a)\<^sup>2 = r\<^sup>2"
    by (simp add: power_mult_distrib flip: distrib_left)
  then show ?thesis by simp
qed

lemma amax_Max: "a \<noteq> [] \<Longrightarrow> amax a = Inr (Max (set a))"
proof (cases a)
  case (Cons x xs)
  then show ?thesis using Max.set_eq_fold [of x xs] by (simp add: amax_def)
qed simp

lemma amin_Min: "a \<noteq> [] \<Longrightarrow> amin a = Inr (Min (set a))"
proof (cases a)
  case (Cons x xs)
  then show ?thesis using Min.set_eq_fold [of x xs] by (simp add: amin_def)
qed simp

lemma amax_empty: "amax [] = Inl ValueError"
  by (simp add: amax_def)

lemma amin_empty: "amin [] = Inl ValueError"
  by (simp add: amin_def)

lemma map_region_auto:
  assumes "map_region a lon lat = Inr (mnlo, mxlo, mnla, mxla)" and "auto_range a"
  shows "mnlo = Min (set lon) \<and> mxlo = Max (set lon) \<and> mnla = Min (set lat) \<and> mxla = Max (set lat)"
proof -
  have "lat \<noteq> []" using assms by (auto simp: map_region_def amax_empty)
  moreover have "lon \<noteq> []" using assms by (auto simp: map_region_def amax_empty split: sum.splits)
  ultimately show ?thesis using assms by (simp add: map_region_def amax_Max amin_Min)
qed

lemma map_region_explicit:
  assumes "map_region a lon lat = Inr (mnlo, mxlo, mnla, mxla)" and "\<not> auto_range a"
  shows "mnlo = min_lon a \<and> mxlo = max_lon a \<and> mnla = min_lat a \<and> mxla = max_lat a"
  using assms by (simp add: map_region_def)

lemma arange_step1: "arange start stop 1 = [start .. stop - 1]"
proof (rule nth_equalityI)
  show "length (arange start stop 1) = length [start .. stop - 1]"
    by (simp add: arange_def)
next
  fix i assume "i < length (arange start stop 1)"
  then show "arange start stop 1 ! i = [start .. stop - 1] ! i"
    by (simp add: arange_def)
qed

lemma default_lat_lines_conv: "default_lat_lines = map real_of_int [30 .. 45]"
  unfolding default_lat_lines_def arange_step1 by simp

lemma default_lon_lines_conv: "default_lon_lines = map real_of_int [- 110 .. - 76]"
  unfolding default_lon_lines_def arange_step1 by simp

lemma ppi_canvas:
  assumes "plot_ppi_map e w a = (None, w')"
  shows "\<exists>pm rest. canvas w' = canvas w @
        [(fst (parse_ax_fig w (ax a) (fig a)), Coastlines 1.25),
         (fst (parse_ax_fig w (ax a) (fig a)), States),
         (fst (parse_ax_fig w (ax a) (fig a)),
          Parallels (case lat_lines a of None \<Rightarrow> default_lat_lines | Some l \<Rightarrow> l)
            [True, False, False, False]),
         (fst (parse_ax_fig w (ax a) (fig a)),
          Meridians (case lon_lines a of None \<Rightarrow> default_lon_lines | Some l \<Rightarrow> l)
            [False, False, False, True]),
         (fst (parse_ax_fig w (ax a) (fig a)), Pcolormesh pm)] @ rest"
  using ppi_success [OF assms] by (elim exE conjE) simp

lemma flat_ppi_succeeds: "fst (plot_ppi_map flat_env w a) = None"
  by (cases "auto_range a"; cases "shapefile a"; cases "colorbar_flag a")
     (simp_all add: plot_ppi_map_def Let_def parse_ax_fig_def flat_env_def
        map_region_def amax_def amin_def)

lemma flat_ppi_run: "plot_ppi_map flat_env w a = (None, snd (plot_ppi_map flat_env w a))"
  using flat_ppi_succeeds [of w a] by (simp add: prod_eq_iff)

section \<open>The claims\<close>

text \<open>
  Claim C1: for coordinate arrays that the projection accepts, \<open>plot_line_xy\<close> is
  \<open>plot_line_geo\<close> on the projected longitudes and latitudes: the same exception or the
  same line drawn, and the same world left behind. It does nothing besides projecting
  and delegating.
\<close>

theorem plot_line_xy_is_plot_line_geo:
  "pyproj_inverse e (proj (disp w)) line_x line_y = Inr (lons, lats) \<Longrightarrow>
   plot_line_xy e w line_x line_y line_style = plot_line_geo e w lons lats line_style"
  by (simp add: plot_line_xy_def)

text \<open>
  The theorem at the line from the radar to the point 100 km east and 200 km north of it.
\<close>

theorem plot_line_xy_is_plot_line_geo_witness:
  "pyproj_inverse flat_env (proj (disp mapped_world)) [0, 100000] [0, 200000] = Inr ([- 90, - 89], [40, 42]) \<and>
   plot_line_xy flat_env mapped_world [0, 100000] [0, 200000] ''r-'' =
     plot_line_geo flat_env mapped_world [- 90, - 89] [40, 42] ''r-''"
proof -
  have h: "pyproj_inverse flat_env (proj (disp mapped_world)) [0, 100000] [0, 200000] = Inr ([- 90, - 89], [40, 42])"
    by (simp add: flat_env_def mapped_world_def fresh_world_def init_def RadarDisplay_init_def Let_def)
  show ?thesis using h plot_line_xy_is_plot_line_geo [OF h] by simp
qed

text \<open>
  Claim C2: for every radius \<open>r\<close>, \<open>plot_range_ring\<close> hands 360 points to
  \<open>plot_line_xy\<close>, each of them at distance \<open>\<bar>r\<bar>\<close> from the origin, and the first
  point is the last one. (In real arithmetic; rounding is not modelled.)
\<close>

theorem range_ring_points:
  "plot_range_ring e w r line_style = plot_line_xy e w (ring_xpts r) (ring_ypts r) line_style \<and>
   length (ring_xpts r) = 360 \<and> length (ring_ypts r) = 360 \<and>
   map2 (\<lambda>x y. sqrt (x\<^sup>2 + y\<^sup>2)) (ring_xpts r) (ring_ypts r) = replicate 360 \<bar>r\<bar> \<and>
   ring_xpts r ! 0 = ring_xpts r ! 359 \<and> ring_ypts r ! 0 = ring_ypts r ! 359"
proof -
  have a: "plot_range_ring e w r line_style = plot_line_xy e w (ring_xpts r) (ring_ypts r) line_style"
    by (simp add: plot_range_ring_def)
  have b: "length (ring_xpts r) = 360" "length (ring_ypts r) = 360"
    by (simp_all add: ring_xpts_def ring_ypts_def length_ring_angle)
  have "map2 (\<lambda>x y. sqrt (x\<^sup>2 + y\<^sup>2)) (ring_xpts r) (ring_ypts r) =
        map (\<lambda>a. sqrt ((r * sin a)\<^sup>2 + (r * cos a)\<^sup>2)) ring_angle"
    by (simp add: ring_xpts_def ring_ypts_def zip_map_map zip_same_conv_map)
  also have "\<dots> = map (\<lambda>a. \<bar>r\<bar>) ring_angle"
    by (simp add: ring_radius)
  also have "\<dots> = replicate 360 \<bar>r\<bar>"
    by (simp add: map_replicate_const length_ring_angle)
  finally have c: "map2 (\<lambda>x y. sqrt (x\<^sup>2 + y\<^sup>2)) (ring_xpts r) (ring_ypts r) = replicate 360 \<bar>r\<bar>" .
  have first: "ring_angle ! 0 = 0" and last: "ring_angle ! 359 = 2 * pi"
    by (simp_all add: ring_angle_nth)
  have d: "ring_xpts r ! 0 = ring_xpts r ! 359"
    by (simp add: ring_xpts_def length_ring_angle first last)
  have e: "ring_ypts r ! 0 = ring_ypts r ! 359"
    by (simp add: ring_ypts_def length_ring_angle first last)
  show ?thesis using a b c d e by simp
qed

text \<open>
  Claim C3: after a successful \<open>plot_ppi_map\<close> the stored map has, with \<open>auto_range\<close>,
  the least and greatest projected longitude and latitude of the sweep as its corners,
  and without it the bounds that were passed in.
\<close>

theorem map_extent:
  assumes "plot_ppi_map e w a = (None, w')"
    and "get_x_y e (field a) (sweep a) = Inr (x, y)"
    and "pyproj_inverse e (proj (disp w)) (map (\<lambda>v. v * 1000) x) (map (\<lambda>v. v * 1000) y) = Inr (lon, lat)"
  shows "\<exists>bm. basemap (disp w') = Some bm \<and>
     llcrnrlon bm = (if auto_range a then Min (set lon) else min_lon a) \<and>
     urcrnrlon bm = (if auto_range a then Max (set lon) else max_lon a) \<and>
     llcrnrlat bm = (if auto_range a then Min (set lat) else min_lat a) \<and>
     urcrnrlat bm = (if auto_range a then Max (set lat) else max_lat a)"
proof -
  from ppi_success [OF assms(1)] obtain x' y' lon' lat' mnlo mxlo mnla mxla bm where
    xy: "get_x_y e (field a) (sweep a) = Inr (x', y')" and
    pr: "pyproj_inverse e (proj (disp w)) (map (\<lambda>v. v * 1000) x') (map (\<lambda>v. v * 1000) y') = Inr (lon', lat')" and
    mr: "map_region a lon' lat' = Inr (mnlo, mxlo, mnla, mxla)" and
    bm: "bm = \<lparr>llcrnrlon = mnlo, llcrnrlat = mnla, urcrnrlon = mxlo, urcrnrlat = mxla,
           bm_projection = ''lcc'', area_thresh = 1000, bm_resolution = resolution a,
           bm_ax = fst (parse_ax_fig w (ax a) (fig a)),
           bm_lat_0 = fst (loc (disp w)), bm_lon_0 = snd (loc (disp w))\<rparr>" and
    st: "basemap (disp w') = Some bm"
    by blast
  from xy assms(2) have "x' = x" "y' = y" by simp_all
  with pr assms(3) have ll: "lon' = lon" "lat' = lat" by simp_all
  show ?thesis
  proof (cases "auto_range a")
    case True
    from map_region_auto [OF mr True] st bm ll True show ?thesis by simp
  next
    case False
    from map_region_explicit [OF mr False] st bm False show ?thesis by simp
  qed
qed

text \<open>
  The theorem at the sweep with gates at \<open>(0, 0)\<close>, \<open>(1, 0)\<close> and \<open>(0, 1)\<close> km around a
  radar at 40 N, 90 W, with the default arguments (\<open>auto_range\<close> is set).
\<close>

theorem map_extent_witness:
  "plot_ppi_map flat_env fresh_world (default_args ''reflectivity'') =
     (None, snd (plot_ppi_map flat_env fresh_world (default_args ''reflectivity''))) \<and>
   get_x_y flat_env (field (default_args ''reflectivity'')) (sweep (default_args ''reflectivity'')) =
     Inr ([0, 1, 0], [0, 0, 1]) \<and>
   pyproj_inverse flat_env (proj (disp fresh_world)) (map (\<lambda>v. v * 1000) [0, 1, 0])
     (map (\<lambda>v. v * 1000) [0, 0, 1]) = Inr ([- 90, - 8999 / 100, - 90], [40, 40, 4001 / 100]) \<and>
   (\<exists>bm. basemap (disp (snd (plot_ppi_map flat_env fresh_world (default_args ''reflectivity'')))) = Some bm \<and>
      llcrnrlon bm = - 90 \<and> urcrnrlon bm = - 8999 / 100 \<and>
      llcrnrlat bm = 40 \<and> urcrnrlat bm = 4001 / 100)"
proof -
  let ?a = "default_args ''reflectivity''"
  have h1: "plot_ppi_map flat_env fresh_world ?a = (None, snd (plot_ppi_map flat_env fresh_world ?a))"
    by (rule flat_ppi_run)
  have h2: "get_x_y flat_env (field ?a) (sweep ?a) = Inr ([0, 1, 0], [0, 0, 1])"
    by (simp add: flat_env_def)
  have h3: "pyproj_inverse flat_env (proj (disp fresh_world)) (map (\<lambda>v. v * 1000) [0, 1, 0])
     (map (\<lambda>v. v * 1000) [0, 0, 1]) = Inr ([- 90, - 8999 / 100, - 90], [40, 40, 4001 / 100])"
    by (simp add: flat_env_def fresh_world_def init_def RadarDisplay_init_def Let_def)
  have a: "auto_range ?a" by (simp add: default_args_def)
  show ?thesis
    using h1 h2 h3 map_extent [OF h1 h2 h3] a by simp
qed

text \<open>
  Claim C5: on a display that has just been constructed the stored map is \<open>None\<close>, and
  both \<open>plot_point\<close> and \<open>plot_line_geo\<close> raise \<open>TypeError\<close> without drawing anything.
\<close>

theorem overlay_before_map_fails:
  "basemap (init radar_loc) = None \<and>
   plot_point e (w\<lparr>disp := init radar_loc\<rparr>) lon lat symbol label_text label_offset =
     (Some TypeError, w\<lparr>disp := init radar_loc\<rparr>) \<and>
   plot_line_geo e (w\<lparr>disp := init radar_loc\<rparr>) line_lons line_lats line_style =
     (Some TypeError, w\<lparr>disp := init radar_loc\<rparr>)"
  by (simp add: init_basemap plot_point_def plot_line_geo_def)

text \<open>
  Claim C7: when \<open>plot_point\<close> is given a label (and an offset of at least two
  entries, so that the offset position can be computed), the label is drawn at the map
  position of \<open>(lon, lat)\<close> itself, where the marker is; the result does not mention
  the offset.
\<close>

theorem label_drawn_at_point:
  "basemap (disp w) = Some bm \<Longrightarrow> basemap_call_pt e bm lon lat = Inr (xp, yp) \<Longrightarrow>
   2 \<le> length label_offset \<Longrightarrow>
   plot_point e w lon lat symbol (Some txt) label_offset =
     (None, gca_draw (Text xp yp txt) (gca_draw (Line [xp, xp] [yp, yp] symbol) w))"
  by (auto simp: plot_point_def getitem_def)

text \<open>
  The theorem at a point one degree north of the radar, with an offset of one degree
  each way: the label is at the marker, 200 km east and 100 km north of the map corner.
\<close>

theorem label_drawn_at_point_witness:
  "basemap (disp mapped_world) = Some
     \<lparr>llcrnrlon = - 92, llcrnrlat = 40, urcrnrlon = - 86, urcrnrlat = 44,
      bm_projection = ''lcc'', area_thresh = 1000, bm_resolution = ''h'', bm_ax = 0,
      bm_lat_0 = 40, bm_lon_0 = - 90\<rparr> \<and>
   basemap_call_pt flat_env
     \<lparr>llcrnrlon = - 92, llcrnrlat = 40, urcrnrlon = - 86, urcrnrlat = 44,
      bm_projection = ''lcc'', area_thresh = 1000, bm_resolution = ''h'', bm_ax = 0,
      bm_lat_0 = 40, bm_lon_0 = - 90\<rparr> (- 90) 41 = Inr (200000, 100000) \<and>
   2 \<le> length [1 :: real, 1] \<and>
   plot_point flat_env mapped_world (- 90) 41 ''ro'' (Some ''KLOT'') [1, 1] =
     (None, gca_draw (Text 200000 100000 ''KLOT'')
              (gca_draw (Line [200000, 200000] [100000, 100000] ''ro'') mapped_world))"
proof -
  let ?bm = "\<lparr>llcrnrlon = - 92, llcrnrlat = 40, urcrnrlon = - 86, urcrnrlat = 44,
      bm_projection = ''lcc'', area_thresh = 1000, bm_resolution = ''h'', bm_ax = 0,
      bm_lat_0 = 40, bm_lon_0 = - 90\<rparr>"
  have h1: "basemap (disp mapped_world) = Some ?bm"
    by (simp add: mapped_world_def)
  have h2: "basemap_call_pt flat_env ?bm (- 90) 41 = Inr (200000, 100000)"
    by (simp add: flat_env_def)
  have h3: "2 \<le> length [1 :: real, 1]" by simp
  show ?thesis
    using h1 h2 h3 label_drawn_at_point [OF h1 h2 h3, of "''ro''" "''KLOT''"] by simp
qed

text \<open>
  Claim C8, as amended: the 360 angles are \<open>i * 2\<pi>/359\<close> for \<open>i = 0, ..., 359\<close>; the
  first is 0 and the last is \<open>2\<pi>\<close> itself, so they span the closed interval.
\<close>

theorem ring_angle_samples:
  "ring_angle = map (\<lambda>i. real i * (2 * pi / 359)) [0 ..< 360] \<and>
   ring_angle ! 0 = 0 \<and> ring_angle ! 359 = 2 * pi"
  using ring_angle_conv by (simp add: ring_angle_nth)

text \<open>
  Claim C8 as stated fails: the step between the first two angles is not \<open>2\<pi>/360\<close>,
  and the last angle is not below \<open>2\<pi>\<close>.
\<close>

theorem ring_angle_step_counterexample:
  "ring_angle ! 1 - ring_angle ! 0 \<noteq> 2 * pi / 360 \<and> \<not> ring_angle ! 359 < 2 * pi"
  by (simp add: ring_angle_nth)

text \<open>
  Claim C10: none of the four overlay methods changes the display, whether it returns
  or raises: the stored map, the projection and the artifact lists are as before.
\<close>

theorem overlay_keeps_display:
  "disp (snd (plot_point e w lon lat symbol label_text label_offset)) = disp w \<and>
   disp (snd (plot_line_geo e w line_lons line_lats line_style)) = disp w \<and>
   disp (snd (plot_line_xy e w line_x line_y line_style)) = disp w \<and>
   disp (snd (plot_range_ring e w radar_range line_style)) = disp w"
  by (simp add: plot_point_def plot_line_geo_def plot_line_xy_def plot_range_ring_def Let_def
      split: option.splits sum.splits prod.splits)

text \<open>
  Claim C4: two successful calls of \<open>plot_ppi_map\<close> append two meshes to \<open>plots\<close> and
  the two field names to \<open>plot_vars\<close>, the first call's before the second call's, and
  the map stored afterwards is the one the second call built from its own arguments.
\<close>

theorem two_calls:
  assumes "plot_ppi_map e w a1 = (None, w1)" and "plot_ppi_map e w1 a2 = (None, w2)"
  shows "\<exists>pm1 pm2 x y lon lat mnlo mxlo mnla mxla.
     plots (disp w1) = plots (disp w) @ [pm1] \<and>
     plots (disp w2) = plots (disp w) @ [pm1, pm2] \<and>
     plot_vars (disp w2) = plot_vars (disp w) @ [field a1, field a2] \<and>
     get_x_y e (field a2) (sweep a2) = Inr (x, y) \<and>
     pyproj_inverse e (proj (disp w1)) (map (\<lambda>v. v * 1000) x) (map (\<lambda>v. v * 1000) y) = Inr (lon, lat) \<and>
     map_region a2 lon lat = Inr (mnlo, mxlo, mnla, mxla) \<and>
     basemap (disp w2) = Some
       \<lparr>llcrnrlon = mnlo, llcrnrlat = mnla, urcrnrlon = mxlo, urcrnrlat = mxla,
        bm_projection = ''lcc'', area_thresh = 1000, bm_resolution = resolution a2,
        bm_ax = fst (parse_ax_fig w1 (ax a2) (fig a2)),
        bm_lat_0 = fst (loc (disp w1)), bm_lon_0 = snd (loc (disp w1))\<rparr>"
proof -
  from ppi_success [OF assms(1)] obtain pm1 where
    p1: "plots (disp w1) = plots (disp w) @ [pm1]" and
    v1: "plot_vars (disp w1) = plot_vars (disp w) @ [field a1]"
    by blast
  from ppi_success [OF assms(2)] obtain pm2 x y lon lat mnlo mxlo mnla mxla bm where
    xy: "get_x_y e (field a2) (sweep a2) = Inr (x, y)" and
    pr: "pyproj_inverse e (proj (disp w1)) (map (\<lambda>v. v * 1000) x) (map (\<lambda>v. v * 1000) y) = Inr (lon, lat)" and
    mr: "map_region a2 lon lat = Inr (mnlo, mxlo, mnla, mxla)" and
    bm: "bm = \<lparr>llcrnrlon = mnlo, llcrnrlat = mnla, urcrnrlon = mxlo, urcrnrlat = mxla,
        bm_projection = ''lcc'', area_thresh = 1000, bm_resolution = resolution a2,
        bm_ax = fst (parse_ax_fig w1 (ax a2) (fig a2)),
        bm_lat_0 = fst (loc (disp w1)), bm_lon_0 = snd (loc (disp w1))\<rparr>" and
    st: "basemap (disp w2) = Some bm" and
    p2: "plots (disp w2) = plots (disp w1) @ [pm2]" and
    v2: "plot_vars (disp w2) = plot_vars (disp w1) @ [field a2]"
    by blast
  have "plots (disp w2) = plots (disp w) @ [pm1, pm2]" using p1 p2 by simp
  moreover have "plot_vars (disp w2) = plot_vars (disp w) @ [field a1, field a2]" using v1 v2 by simp
  ultimately show ?thesis using p1 xy pr mr st bm by blast
qed

text \<open>
  The theorem at a plot of the field \<open>reflectivity\<close> with the default arguments followed
  by a plot of \<open>velocity\<close> with \<open>auto_range\<close> off: the stored map has the default
  bounds of the second call.
\<close>

theorem two_calls_witness:
  "plot_ppi_map flat_env fresh_world (default_args ''reflectivity'') =
     (None, snd (plot_ppi_map flat_env fresh_world (default_args ''reflectivity''))) \<and>
   plot_ppi_map flat_env (snd (plot_ppi_map flat_env fresh_world (default_args ''reflectivity'')))
       ((default_args ''velocity'')\<lparr>auto_range := False\<rparr>) =
     (None, snd (plot_ppi_map flat_env
        (snd (plot_ppi_map flat_env fresh_world (default_args ''reflectivity'')))
        ((default_args ''velocity'')\<lparr>auto_range := False\<rparr>))) \<and>
   length (plots (disp (snd (plot_ppi_map flat_env
        (snd (plot_ppi_map flat_env fresh_world (default_args ''reflectivity'')))
        ((default_args ''velocity'')\<lparr>auto_range := False\<rparr>))))) = 2 \<and>
   plot_vars (disp (snd (plot_ppi_map flat_env
        (snd (plot_ppi_map flat_env fresh_world (default_args ''reflectivity'')))
        ((default_args ''velocity'')\<lparr>auto_range := False\<rparr>)))) = [''reflectivity'', ''velocity''] \<and>
   (\<exists>bm. basemap (disp (snd (plot_ppi_map flat_env
        (snd (plot_ppi_map flat_env fresh_world (default_args ''reflectivity'')))
        ((default_args ''velocity'')\<lparr>auto_range := False\<rparr>)))) = Some bm \<and>
      llcrnrlon bm = - 92 \<and> urcrnrlon bm = - 86 \<and> llcrnrlat bm = 40 \<and> urcrnrlat bm = 44)"
proof -
  let ?a1 = "default_args ''reflectivity''"
  let ?a2 = "(default_args ''velocity'')\<lparr>auto_range := False\<rparr>"
  let ?w1 = "snd (plot_ppi_map flat_env fresh_world ?a1)"
  let ?w2 = "snd (plot_ppi_map flat_env ?w1 ?a2)"
  have h1: "plot_ppi_map flat_env fresh_world ?a1 = (None, ?w1)" by (rule flat_ppi_run)
  have h2: "plot_ppi_map flat_env ?w1 ?a2 = (None, ?w2)" by (rule flat_ppi_run)
  have e: "plots (disp fresh_world) = []" "plot_vars (disp fresh_world) = []"
    by (simp_all add: fresh_world_def init_def RadarDisplay_init_def Let_def)
  have f: "field ?a1 = ''reflectivity''" "field ?a2 = ''velocity''"
    by (simp_all add: default_args_def)
  have r: "map_region ?a2 lon lat = Inr (- 92, - 86, 40, 44)" for lon lat
    by (simp add: map_region_def default_args_def)
  from two_calls [OF h1 h2] obtain pm1 pm2 lon lat mnlo mxlo mnla mxla where
    p: "plots (disp ?w2) = plots (disp fresh_world) @ [pm1, pm2]" and
    v: "plot_vars (disp ?w2) = plot_vars (disp fresh_world) @ [field ?a1, field ?a2]" and
    m: "map_region ?a2 lon lat = Inr (mnlo, mxlo, mnla, mxla)" and
    b: "basemap (disp ?w2) = Some
       \<lparr>llcrnrlon = mnlo, llcrnrlat = mnla, urcrnrlon = mxlo, urcrnrlat = mxla,
        bm_projection = ''lcc'', area_thresh = 1000, bm_resolution = resolution ?a2,
        bm_ax = fst (parse_ax_fig ?w1 (ax ?a2) (fig ?a2)),
        bm_lat_0 = fst (loc (disp ?w1)), bm_lon_0 = snd (loc (disp ?w1))\<rparr>"
    by blast
  from m r have "mnlo = - 92" "mxlo = - 86" "mnla = 40" "mxla = 44" by simp_all
  with b have "\<exists>bm. basemap (disp ?w2) = Some bm \<and>
      llcrnrlon bm = - 92 \<and> urcrnrlon bm = - 86 \<and> llcrnrlat bm = 40 \<and> urcrnrlat bm = 44"
    by simp
  moreover have "length (plots (disp ?w2)) = 2" using p e by simp
  moreover have "plot_vars (disp ?w2) = [''reflectivity'', ''velocity'']"
    using v e f by simp
  ultimately show ?thesis using h1 h2 by blast
qed

text \<open>
  Claim C6: \<open>plot_ppi_map\<close> projects the sweep coordinates multiplied by 1000, whereas
  \<open>plot_line_xy\<close>, and \<open>plot_range_ring\<close> through it, project their coordinates as
  they are. So a line through the gates of the mesh just drawn is obtained from
  \<open>plot_line_xy\<close> by passing the sweep coordinates multiplied by 1000.
\<close>

theorem km_versus_m:
  assumes "plot_ppi_map e w a = (None, w')"
    and "get_x_y e (field a) (sweep a) = Inr (x, y)"
  shows "\<exists>lon lat bm pm.
     pyproj_inverse e (proj (disp w)) (map (\<lambda>v. v * 1000) x) (map (\<lambda>v. v * 1000) y) = Inr (lon, lat) \<and>
     basemap (disp w') = Some bm \<and>
     plots (disp w') = plots (disp w) @ [pm] \<and>
     basemap_call e bm lon lat = Inr (m_x pm, m_y pm) \<and>
     plot_line_xy e w' (map (\<lambda>v. v * 1000) x) (map (\<lambda>v. v * 1000) y) line_style =
       (None, gca_draw (Line (m_x pm) (m_y pm) line_style) w') \<and>
     plot_line_xy e w' x y line_style =
       (case pyproj_inverse e (proj (disp w)) x y of
          Inl err \<Rightarrow> (Some err, w')
        | Inr (lons, lats) \<Rightarrow> plot_line_geo e w' lons lats line_style) \<and>
     plot_range_ring e w' radar_range line_style =
       plot_line_xy e w' (map (\<lambda>a. radar_range * sin a) ring_angle)
         (map (\<lambda>a. radar_range * cos a) ring_angle) line_style"
proof -
  from ppi_success [OF assms(1)] obtain vmin1 vmax1 data x' y' lon lat xd yd bm pm where
    xy: "get_x_y e (field a) (sweep a) = Inr (x', y')" and
    pr: "pyproj_inverse e (proj (disp w)) (map (\<lambda>v. v * 1000) x') (map (\<lambda>v. v * 1000) y') = Inr (lon, lat)" and
    bc: "basemap_call e bm lon lat = Inr (xd, yd)" and
    pmdef: "pm = \<lparr>m_x = xd, m_y = yd,
           m_data = (if mask_outside a then masked_outside data vmin1 vmax1 else data),
           m_vmin = vmin1, m_vmax = vmax1, m_cmap = cmap a\<rparr>" and
    st: "basemap (disp w') = Some bm" and
    pj: "proj (disp w') = proj (disp w)" and
    pl: "plots (disp w') = plots (disp w) @ [pm]"
    by blast
  have pm: "m_x pm = xd" "m_y pm = yd" by (simp_all add: pmdef)
  from xy assms(2) have eq: "x' = x" "y' = y" by simp_all
  have "plot_line_xy e w' (map (\<lambda>v. v * 1000) x) (map (\<lambda>v. v * 1000) y) line_style =
       (None, gca_draw (Line (m_x pm) (m_y pm) line_style) w')"
    using pr bc pm st pj eq by (simp add: plot_line_xy_def plot_line_geo_def)
  moreover have "plot_line_xy e w' x y line_style =
       (case pyproj_inverse e (proj (disp w)) x y of
          Inl err \<Rightarrow> (Some err, w')
        | Inr (lons, lats) \<Rightarrow> plot_line_geo e w' lons lats line_style)"
    by (simp add: plot_line_xy_def pj)
  moreover have "plot_range_ring e w' radar_range line_style =
       plot_line_xy e w' (map (\<lambda>a. radar_range * sin a) ring_angle)
         (map (\<lambda>a. radar_range * cos a) ring_angle) line_style"
    by (simp add: plot_range_ring_def ring_xpts_def ring_ypts_def)
  ultimately show ?thesis using pr bc pm st pl eq by auto
qed

text \<open>
  The theorem at the sweep with gates at \<open>(0, 0)\<close>, \<open>(1, 0)\<close> and \<open>(0, 1)\<close>: the line
  has to be given \<open>(0, 0)\<close>, \<open>(1000, 0)\<close> and \<open>(0, 1000)\<close>.
\<close>

theorem km_versus_m_witness:
  "plot_ppi_map flat_env fresh_world (default_args ''reflectivity'') =
     (None, snd (plot_ppi_map flat_env fresh_world (default_args ''reflectivity''))) \<and>
   get_x_y flat_env (field (default_args ''reflectivity'')) (sweep (default_args ''reflectivity'')) =
     Inr ([0, 1, 0], [0, 0, 1]) \<and>
   (\<exists>pm. plots (disp (snd (plot_ppi_map flat_env fresh_world (default_args ''reflectivity'')))) = [pm] \<and>
      plot_line_xy flat_env (snd (plot_ppi_map flat_env fresh_world (default_args ''reflectivity'')))
        [0, 1000, 0] [0, 0, 1000] ''r-'' =
      (None, gca_draw (Line (m_x pm) (m_y pm) ''r-'')
               (snd (plot_ppi_map flat_env fresh_world (default_args ''reflectivity'')))))"
proof -
  let ?a = "default_args ''reflectivity''"
  let ?w' = "snd (plot_ppi_map flat_env fresh_world ?a)"
  have h1: "plot_ppi_map flat_env fresh_world ?a = (None, ?w')" by (rule flat_ppi_run)
  have h2: "get_x_y flat_env (field ?a) (sweep ?a) = Inr ([0, 1, 0], [0, 0, 1])"
    by (simp add: flat_env_def)
  have e: "plots (disp fresh_world) = []"
    by (simp add: fresh_world_def init_def RadarDisplay_init_def Let_def)
  from km_versus_m [OF h1 h2, of "''r-''"] obtain pm where
    "plots (disp ?w') = plots (disp fresh_world) @ [pm]" and
    "plot_line_xy flat_env ?w' (map (\<lambda>v. v * 1000) [0, 1, 0]) (map (\<lambda>v. v * 1000) [0, 0, 1]) ''r-'' =
       (None, gca_draw (Line (m_x pm) (m_y pm) ''r-'') ?w')"
    by blast
  then have "\<exists>pm. plots (disp ?w') = [pm] \<and>
      plot_line_xy flat_env ?w' [0, 1000, 0] [0, 0, 1000] ''r-'' =
      (None, gca_draw (Line (m_x pm) (m_y pm) ''r-'') ?w')"
    using e by simp
  then show ?thesis using h1 h2 by blast
qed

text \<open>
  Claim C9, as amended: the parallels drawn by a successful \<open>plot_ppi_map\<close> are the
  given \<open>lat_lines\<close>, or the whole degrees from 30 to 45 when none are given; the
  meridians are the given \<open>lon_lines\<close>, or the whole degrees from -110 to -76.
\<close>

theorem graticule_lines:
  assumes "plot_ppi_map e w a = (None, w')"
  shows "(fst (parse_ax_fig w (ax a) (fig a)),
          Parallels (case lat_lines a of None \<Rightarrow> map real_of_int [30 .. 45] | Some l \<Rightarrow> l)
            [True, False, False, False]) \<in> set (canvas w') \<and>
         (fst (parse_ax_fig w (ax a) (fig a)),
          Meridians (case lon_lines a of None \<Rightarrow> map real_of_int [- 110 .. - 76] | Some l \<Rightarrow> l)
            [False, False, False, True]) \<in> set (canvas w')"
proof -
  from ppi_canvas [OF assms] obtain pm rest where
    cv: "canvas w' = canvas w @
        [(fst (parse_ax_fig w (ax a) (fig a)), Coastlines 1.25),
         (fst (parse_ax_fig w (ax a) (fig a)), States),
         (fst (parse_ax_fig w (ax a) (fig a)),
          Parallels (case lat_lines a of None \<Rightarrow> default_lat_lines | Some l \<Rightarrow> l)
            [True, False, False, False]),
         (fst (parse_ax_fig w (ax a) (fig a)),
          Meridians (case lon_lines a of None \<Rightarrow> default_lon_lines | Some l \<Rightarrow> l)
            [False, False, False, True]),
         (fst (parse_ax_fig w (ax a) (fig a)), Pcolormesh pm)] @ rest"
    by blast
  show ?thesis
    unfolding default_lat_lines_conv [symmetric] default_lon_lines_conv [symmetric]
    by (simp add: cv)
qed

text \<open>
  The theorem at a plot with the default arguments, which give no graticule lines.
\<close>

theorem graticule_lines_witness:
  "plot_ppi_map flat_env fresh_world (default_args ''reflectivity'') =
     (None, snd (plot_ppi_map flat_env fresh_world (default_args ''reflectivity''))) \<and>
   (0, Parallels (map real_of_int [30 .. 45]) [True, False, False, False])
     \<in> set (canvas (snd (plot_ppi_map flat_env fresh_world (default_args ''reflectivity'')))) \<and>
   (0, Meridians (map real_of_int [- 110 .. - 76]) [False, False, False, True])
     \<in> set (canvas (snd (plot_ppi_map flat_env fresh_world (default_args ''reflectivity''))))"
proof -
  let ?a = "default_args ''reflectivity''"
  have h1: "plot_ppi_map flat_env fresh_world ?a = (None, snd (plot_ppi_map flat_env fresh_world ?a))"
    by (rule flat_ppi_run)
  have a: "lat_lines ?a = None" "lon_lines ?a = None" "ax ?a = None"
    by (simp_all add: default_args_def)
  have b: "cur_ax fresh_world = 0" by (simp add: fresh_world_def)
  show ?thesis
    using h1 graticule_lines [OF h1] by (simp only: a b parse_ax_fig_def option.case fst_conv simp_thms)
qed

text \<open>
  Claim C9 as stated fails at the upper ends: \<open>numpy.arange\<close> leaves its stop value
  out, so there is no default parallel at 46 and no default meridian at -75.
\<close>

theorem default_graticule_counterexample:
  "46 \<notin> set default_lat_lines \<and> - 75 \<notin> set default_lon_lines"
proof
  show "46 \<notin> set default_lat_lines"
  proof
    assume "46 \<in> set default_lat_lines"
    then obtain i :: int where i: "i \<le> 45" and "real_of_int i = 46"
      unfolding default_lat_lines_conv set_map set_upto by auto
    then have "real_of_int i = real_of_int 46" by simp
    then have "i = 46" by (simp only: of_int_eq_iff)
    with i show False by simp
  qed
next
  show "- 75 \<notin> set default_lon_lines"
  proof
    assume "- 75 \<in> set default_lon_lines"
    then obtain i :: int where i: "i \<le> - 76" and "real_of_int i = - 75"
      unfolding default_lon_lines_conv set_map set_upto by auto
    then have "real_of_int i = real_of_int (- 75)" by simp
    then have "i = - 75" by (simp only: of_int_eq_iff)
    with i show False by simp
  qed
qed

end
